theory Spec2Isabelle
  imports Complex_Main "HOL-Library.AList" "HOL-Library.Sublist"
begin

section \<open>The storage engine as seen by the writer\<close>

text \<open>
  The h5py library is an external collaborator.  Only what \<^verbatim>\<open>writer.py\<close> observes of
  it is modelled: a file system maps a file name to a node that is an HDF5 container or
  something else; a container maps group names to groups; a group has string attributes
  and named members.  The contents of a member are left abstract (type \<open>'d\<close>).
\<close>

datatype error =
    IOError string
  | KeyError string
  | ValidationError string
  | NotImplementedError string
  | TypeError string

record 'd group =
  attrs :: "string \<rightharpoonup> string"
  members :: "string \<rightharpoonup> 'd"

datatype 'd node = NotHDF5 | HDF5 "string \<rightharpoonup> 'd group"

text \<open>
  Every operation on an open group is recorded, in the order in which it starts, in a
  trace kept beside the file system.  The trace is how the order of the calls made by
  \<^verbatim>\<open>Writer.write\<close> is observed.
\<close>

datatype event =
    GroupCreate string
  | AttrSet string string
  | FeaturesCreate real
  | TimesCreate real
  | ItemsCreate real
  | IndexCreate real
  | IndexWrite
  | ItemsWrite
  | FeaturesWrite
  | TimesWrite

record 'd state =
  files :: "string \<rightharpoonup> 'd node"
  trace :: "event list"

text \<open>A method that acts on a group: it returns a value or raises, and leaves a group behind.\<close>

type_synonym ('d, 'a) h5op = "'d group \<Rightarrow> (error + 'a) \<times> 'd group"

text \<open>An open group together with the trace so far.\<close>

type_synonym 'd handle = "'d group \<times> event list"

definition call :: "event \<Rightarrow> ('d, 'a) h5op \<Rightarrow> 'd handle \<Rightarrow> (error + 'a) \<times> 'd handle" where
  "call ev op h = (case op (fst h) of (r, g') \<Rightarrow> (r, (g', snd h @ [ev])))"

text \<open>Sequencing of two statements: an exception of the first skips the second.\<close>

definition and_then ::
  "('s \<Rightarrow> (error + 'a) \<times> 's) \<Rightarrow> ('a \<Rightarrow> 's \<Rightarrow> (error + 'b) \<times> 's) \<Rightarrow> 's \<Rightarrow> (error + 'b) \<times> 's" where
  "and_then m f s = (case m s of (Inl e, s') \<Rightarrow> (Inl e, s') | (Inr x, s') \<Rightarrow> f x s')"

text \<open>\<^verbatim>\<open>os.path.isfile\<close> and \<^verbatim>\<open>h5py.is_hdf5\<close>.\<close>

definition isfile :: "string \<Rightarrow> 'd state \<Rightarrow> bool" where
  "isfile fname st = (files st fname \<noteq> None)"

definition is_hdf5 :: "string \<Rightarrow> 'd state \<Rightarrow> bool" where
  "is_hdf5 fname st = (case files st fname of Some (HDF5 _) \<Rightarrow> True | _ \<Rightarrow> False)"

text \<open>
  \<^verbatim>\<open>h5py.File(filename, mode='a')\<close>: an existing container is opened, a file that is
  not a container is refused, and a missing file is created empty.
\<close>

definition h5py_File ::
  "string \<Rightarrow> 'd state \<Rightarrow> error + (string \<rightharpoonup> 'd group) \<times> 'd state" where
  "h5py_File fname st =
     (case files st fname of
        None \<Rightarrow> Inr (Map.empty, st\<lparr>files := (files st)(fname \<mapsto> HDF5 Map.empty)\<rparr>)
      | Some NotHDF5 \<Rightarrow> Inl (IOError (''unable to open '' @ fname))
      | Some (HDF5 h5file) \<Rightarrow> Inr (h5file, st))"

text \<open>Leaving the \<^verbatim>\<open>with\<close> block: what was done to the group is in the file.\<close>

definition close_file ::
  "string \<Rightarrow> (string \<rightharpoonup> 'd group) \<Rightarrow> string \<Rightarrow> 'd state \<Rightarrow> (error + 'a) \<times> 'd handle
     \<Rightarrow> (error + 'a) \<times> 'd state" where
  "close_file fname h5file groupname st res =
     (case res of (r, (g, tr)) \<Rightarrow>
        (r, st\<lparr>files := (files st)(fname \<mapsto> HDF5 (h5file(groupname \<mapsto> g))), trace := tr\<rparr>))"

section \<open>The data objects handed to the writer\<close>

text \<open>
  The classes Items, Times, Features and Index live in modules that are not part of the
  sources at hand.  The writer only calls their methods, so each object is the record of
  the methods and attributes the writer uses; what the methods do is a parameter.
\<close>

record 'd Items =
  name :: string
  data :: "string list"
  is_compatible :: "'d group \<Rightarrow> error + bool"
  create :: "real \<Rightarrow> ('d, unit) h5op"
  "write" :: "('d, unit) h5op"

record ('d, 'ta) Times =
  name :: string
  data :: "'ta list"
  is_compatible :: "'d group \<Rightarrow> error + bool"
  create :: "real \<Rightarrow> ('d, unit) h5op"
  "write" :: "('d, unit) h5op"

record ('d, 'fa) Features =
  name :: string
  dformat :: string
  data :: "'fa list"
  is_compatible :: "'d group \<Rightarrow> error + bool"
  create :: "real \<Rightarrow> ('d, real) h5op"
  "write" :: "('d, unit) h5op"

record ('d, 'fa) Index =
  name :: string
  create :: "real \<Rightarrow> ('d, unit) h5op"
  "write" :: "'d Items \<Rightarrow> ('d, 'fa) Features \<Rightarrow> ('d, unit) h5op"

text \<open>The dictionary \<^verbatim>\<open>data\<close> with its three keys.\<close>

record ('d, 'ta, 'fa) data =
  items :: "'d Items"
  times :: "('d, 'ta) Times"
  features :: "('d, 'fa) Features"

section \<open>The Writer class (h5features2/writer.py)\<close>

record ('d, 'fa) Writer =
  version :: string
  filename :: string
  chunk_size :: real
  index :: "('d, 'fa) Index"

text \<open>
  The literal \<^verbatim>\<open>0.008\<close> of the source is a binary double; this is the rational it
  denotes, slightly above 8/1000.  A chunk size is read as the real number it denotes.
\<close>

definition min_chunk_size :: real where
  "min_chunk_size = 1152921504606847 / 144115188075855872"

text \<open>
  \<^verbatim>\<open>Writer.__init__\<close>.  The object made by \<^verbatim>\<open>Index()\<close> is the parameter \<open>new_index\<close>.
  The constructor only looks at the file system.
\<close>

definition Writer_init ::
  "('d, 'fa) Index \<Rightarrow> string \<Rightarrow> real \<Rightarrow> 'd state \<Rightarrow> (error + ('d, 'fa) Writer) \<times> 'd state" where
  "Writer_init new_index fname csize st =
     (if isfile fname st \<and> \<not> is_hdf5 fname st
      then (Inl (IOError (fname @ '' is not a HDF5 file.'')), st)
      else if csize < min_chunk_size
      then (Inl (IOError ''chunk size is below 8 Ko''), st)
      else (Inr \<lparr>version = ''1.0'', filename = fname,
                 chunk_size = csize, index = new_index\<rparr>, st))"

definition is_same_version :: "('d, 'fa) Writer \<Rightarrow> 'd group \<Rightarrow> error + bool" where
  "is_same_version self grp =
     (case attrs grp ''version'' of
        None \<Rightarrow> Inl (KeyError ''version'')
      | Some v \<Rightarrow> Inr (v = version self))"

definition is_same_datasets ::
  "('d, 'fa) Writer \<Rightarrow> 'd group \<Rightarrow> ('d, 'ta, 'fa) data \<Rightarrow> bool" where
  "is_same_datasets self grp dat =
     (let datasets = [Items.name (items dat),
                      Times.name (times dat),
                      Features.name (features dat),
                      Index.name (index self)];
          datasets = (if dformat (features dat) = ''sparse''
                      then datasets @ [''frames'', ''coordinates''] else datasets)
      in list_all (\<lambda>d. d \<in> dom (members grp)) datasets)"

text \<open>A list comprehension whose elements may raise: the first exception ends it.\<close>

fun comprehension :: "(error + 'a) list \<Rightarrow> error + 'a list" where
  "comprehension [] = Inr []"
| "comprehension (Inl e # rs) = Inl e"
| "comprehension (Inr x # rs) =
     (case comprehension rs of Inl e \<Rightarrow> Inl e | Inr xs \<Rightarrow> Inr (x # xs))"

text \<open>\<^verbatim>\<open>Writer.is_compatible\<close>: \<^verbatim>\<open>and\<close> stops at the first false operand.\<close>

definition Writer_is_compatible ::
  "('d, 'fa) Writer \<Rightarrow> 'd group \<Rightarrow> ('d, 'ta, 'fa) data \<Rightarrow> error + bool" where
  "Writer_is_compatible self grp dat =
     (case is_same_version self grp of
        Inl e \<Rightarrow> Inl e
      | Inr False \<Rightarrow> Inr False
      | Inr True \<Rightarrow>
          if \<not> is_same_datasets self grp dat then Inr False
          else (case comprehension [Features.is_compatible (features dat) grp,
                                    Items.is_compatible (items dat) grp,
                                    Times.is_compatible (times dat) grp] of
                  Inl e \<Rightarrow> Inl e
                | Inr bs \<Rightarrow> Inr (list_all (\<lambda>b. b) bs)))"

text \<open>
  \<^verbatim>\<open>Writer.write\<close>.  The function \<^verbatim>\<open>chunk.nb_lines\<close> belongs to a module that is not
  part of the sources at hand and is the parameter \<open>nb_lines\<close>.
\<close>

definition Writer_write ::
  "(real \<Rightarrow> real \<Rightarrow> real \<Rightarrow> real) \<Rightarrow> ('d, 'fa) Writer \<Rightarrow> ('d, 'ta, 'fa) data \<Rightarrow> string
     \<Rightarrow> 'd state \<Rightarrow> (error + unit) \<times> 'd state" where
  "Writer_write nb_lines self dat groupname st =
     (case h5py_File (filename self) st of
        Inl e \<Rightarrow> (Inl e, st)
      | Inr (h5file, st1) \<Rightarrow>
          let writing =
                and_then (call IndexWrite
                           (Index.write (index self) (items dat) (features dat))) (\<lambda>_.
                and_then (call ItemsWrite (Items.write (items dat))) (\<lambda>_.
                and_then (call FeaturesWrite (Features.write (features dat))) (\<lambda>_.
                call TimesWrite (Times.write (times dat)))))
          in
          (case h5file groupname of
             Some grp \<Rightarrow>
               close_file (filename self) h5file groupname st1
                 (and_then
                    (\<lambda>h. case Writer_is_compatible self (fst h) dat of
                            Inl e \<Rightarrow> (Inl e, h)
                          | Inr ok \<Rightarrow>
                              if \<not> ok
                              then (Inl (IOError (''data is not appendable to the group ''
                                                   @ groupname)), h)
                              else (Inr (), h))
                    (\<lambda>_. writing)
                    (grp, trace st1))
           | None \<Rightarrow>
               close_file (filename self) h5file groupname st1
                 (and_then
                    (and_then (call (AttrSet ''version'' (version self))
                                 (\<lambda>g. (Inr (), g\<lparr>attrs := (attrs g)(''version'' \<mapsto> version self)\<rparr>)))
                       (\<lambda>_.
                     and_then (call (FeaturesCreate (chunk_size self))
                                 (Features.create (features dat) (chunk_size self)))
                       (\<lambda>nb_in_chunks.
                     and_then (call (TimesCreate nb_in_chunks)
                                 (Times.create (times dat) nb_in_chunks))
                       (\<lambda>_.
                     let nb_lines_by_chunk = max 10 (nb_lines 20 1 (chunk_size self * 1000)) in
                     and_then (call (ItemsCreate nb_lines_by_chunk)
                                 (Items.create (items dat) nb_lines_by_chunk))
                       (\<lambda>_.
                     call (IndexCreate (chunk_size self))
                       (Index.create (index self) (chunk_size self)))))))
                    (\<lambda>_. writing)
                    (\<lparr>attrs = Map.empty, members = Map.empty\<rparr>,
                     trace st1 @ [GroupCreate groupname]))))"

section \<open>The data objects, from the specification\<close>

text \<open>
  The modules that define Items, Times, Features and Index are not among the sources.
  The definitions of this section follow the specification of these components; they
  give the parameters of the writer concrete values.
\<close>

text \<open>
  A numeric array of rank 1 or of rank 2 (a list of rows), and what a member of a group
  holds: the identifiers, an array, or the offsets of the index.
\<close>

datatype array = Arr1 "real list" | Arr2 "real list list"

datatype dset = DStr "string list" | DArr array | DIdx "nat list"

fun nrows :: "array \<Rightarrow> nat" where
  "nrows (Arr1 xs) = length xs"
| "nrows (Arr2 rs) = length rs"

fun slice :: "nat \<Rightarrow> nat \<Rightarrow> array \<Rightarrow> array" where
  "slice lo hi (Arr1 xs) = Arr1 (take (hi - lo) (drop lo xs))"
| "slice lo hi (Arr2 rs) = Arr2 (take (hi - lo) (drop lo rs))"

fun rank :: "array \<Rightarrow> nat" where
  "rank (Arr1 _) = 1"
| "rank (Arr2 _) = 2"

definition same_rank :: "array list \<Rightarrow> bool" where
  "same_rank arrays = list_all (\<lambda>a. rank a = rank (hd arrays)) arrays"

text \<open>The empty array of the rank of the first of a list of arrays, of rank 1 if there is none.\<close>

definition empty_like :: "array list \<Rightarrow> array" where
  "empty_like arrays = (case arrays of Arr2 _ # _ \<Rightarrow> Arr2 [] | _ \<Rightarrow> Arr1 [])"

text \<open>Appending rows to a stored array; the storage engine refuses rows of another rank.\<close>

fun append_rows :: "array \<Rightarrow> array \<Rightarrow> error + array" where
  "append_rows (Arr1 xs) (Arr1 ys) = Inr (Arr1 (xs @ ys))"
| "append_rows (Arr2 xs) (Arr2 ys) = Inr (Arr2 (xs @ ys))"
| "append_rows _ _ = Inl (TypeError ''rank'')"

fun append_all :: "array \<Rightarrow> array list \<Rightarrow> error + array" where
  "append_all a [] = Inr a"
| "append_all a (b # bs) =
     (case append_rows a b of Inl e \<Rightarrow> Inl e | Inr a' \<Rightarrow> append_all a' bs)"

text \<open>
  Modelled from the spec: the Item Set (items.py is not in the sources).  Section 4.1:
  construction fails with ValidationError if an identifier is empty or not unique;
  \<open>create\<close> and \<open>write\<close> persist the identifiers in insertion order under the name
  \<open>items\<close> (section 6).  The compatibility check of section 4.5 asks nothing of the items.
\<close>

definition Items_obj :: "string list \<Rightarrow> dset Items" where
  "Items_obj items_data =
     \<lparr>Items.name = ''items'',
      Items.data = items_data,
      Items.is_compatible = (\<lambda>g. Inr True),
      Items.create = (\<lambda>nb_lines_by_chunk g.
         (Inr (), g\<lparr>members := (members g)(''items'' \<mapsto> DStr [])\<rparr>)),
      Items.write = (\<lambda>g.
         case members g ''items'' of
           Some (DStr xs) \<Rightarrow>
             (Inr (), g\<lparr>members := (members g)(''items'' \<mapsto> DStr (xs @ items_data))\<rparr>)
         | _ \<Rightarrow> (Inl (KeyError ''items''), g))\<rparr>"

definition Items_init :: "string list \<Rightarrow> error + dset Items" where
  "Items_init items_data =
     (if [] \<in> set items_data then Inl (ValidationError ''empty item'')
      else if \<not> distinct items_data then Inl (ValidationError ''items are not unique'')
      else Inr (Items_obj items_data))"

text \<open>
  Modelled from the spec: the Times Store (times.py is not in the sources).  Section 4.2:
  construction fails with ValidationError if the second dimension of a 2D array is not
  2 or if the times of an item are not non-decreasing (for 2D arrays, in each of the two
  columns); the rank of an array is 1 or 2 by its type.  The rows of all items are
  stored concatenated under the name \<open>times\<close> (section 6).
\<close>

fun valid_times :: "array \<Rightarrow> bool" where
  "valid_times (Arr1 xs) = sorted xs"
| "valid_times (Arr2 rs) =
     (list_all (\<lambda>r. length r = 2) rs \<and> sorted (map hd rs) \<and> sorted (map last rs))"

definition Times_obj :: "array list \<Rightarrow> (dset, array) Times" where
  "Times_obj times_data =
     \<lparr>Times.name = ''times'',
      Times.data = times_data,
      Times.is_compatible = (\<lambda>g. Inr True),
      Times.create = (\<lambda>nb_in_chunks g.
         (Inr (), g\<lparr>members := (members g)(''times'' \<mapsto> DArr (empty_like times_data))\<rparr>)),
      Times.write = (\<lambda>g.
         case members g ''times'' of
           Some (DArr a) \<Rightarrow>
             (case append_all a times_data of
                Inl e \<Rightarrow> (Inl e, g)
              | Inr a' \<Rightarrow> (Inr (), g\<lparr>members := (members g)(''times'' \<mapsto> DArr a')\<rparr>))
         | _ \<Rightarrow> (Inl (KeyError ''times''), g))\<rparr>"

definition Times_init :: "array list \<Rightarrow> error + (dset, array) Times" where
  "Times_init times_data =
     (if \<not> list_all valid_times times_data then Inl (ValidationError ''times'')
      else Inr (Times_obj times_data))"

text \<open>
  Modelled from the spec: the dense Feature Store (features.py is not in the sources).
  Section 4.3: construction from 2D arrays (lists of rows) fails with ValidationError on
  ragged column counts.  \<open>create\<close> records the storage mode in the attribute \<open>format\<close>
  (section 6) and returns the number of rows of one chunk, computed by the chunk policy
  \<open>nb_lines\<close> from the bytes of a row; \<open>write\<close> appends the rows of all items under the
  name \<open>features\<close>; the compatibility check is (b) of section 4.5: the declared storage
  mode of the group is that of the data.
\<close>

definition storage_mode_check :: "string \<Rightarrow> 'd group \<Rightarrow> error + bool" where
  "storage_mode_check fmt g = Inr (attrs g ''format'' = Some fmt)"

definition dim :: "real list list list \<Rightarrow> nat" where
  "dim features_data = (case concat features_data of [] \<Rightarrow> 0 | r # _ \<Rightarrow> length r)"

definition Features_obj ::
  "(real \<Rightarrow> real \<Rightarrow> real \<Rightarrow> real) \<Rightarrow> real list list list \<Rightarrow> (dset, real list list) Features" where
  "Features_obj nb_lines features_data =
     \<lparr>Features.name = ''features'',
      dformat = ''dense'',
      Features.data = features_data,
      Features.is_compatible = storage_mode_check ''dense'',
      Features.create = (\<lambda>csize g.
         (Inr (nb_lines 8 (real (dim features_data)) (csize * 1000)),
          g\<lparr>attrs := (attrs g)(''format'' \<mapsto> ''dense''),
            members := (members g)(''features'' \<mapsto> DArr (Arr2 []))\<rparr>)),
      Features.write = (\<lambda>g.
         case members g ''features'' of
           Some (DArr (Arr2 rs)) \<Rightarrow>
             (Inr (), g\<lparr>members := (members g)(''features'' \<mapsto>
                                         DArr (Arr2 (rs @ concat features_data)))\<rparr>)
         | _ \<Rightarrow> (Inl (KeyError ''features''), g))\<rparr>"

definition Features_init ::
  "(real \<Rightarrow> real \<Rightarrow> real \<Rightarrow> real) \<Rightarrow> real list list list
     \<Rightarrow> error + (dset, real list list) Features" where
  "Features_init nb_lines features_data =
     (if \<not> list_all (\<lambda>r. length r = dim features_data) (concat features_data)
      then Inl (ValidationError ''features'')
      else Inr (Features_obj nb_lines features_data))"

text \<open>
  Modelled from the spec: the Cumulative Index (index.py is not in the sources).
  Sections 3, 4.4 and 6: the member \<open>index\<close> holds one offset more than there are items,
  the first being 0; \<open>write\<close> appends, for each new item, the previous total plus the
  number of rows of the item, and changes no offset that is already there.
\<close>

fun offsets :: "nat \<Rightarrow> nat list \<Rightarrow> nat list" where
  "offsets tot [] = []"
| "offsets tot (n # ns) = (tot + n) # offsets (tot + n) ns"

definition Index_obj :: "(dset, real list list) Index" where
  "Index_obj =
     \<lparr>Index.name = ''index'',
      Index.create = (\<lambda>csize g.
         (Inr (), g\<lparr>members := (members g)(''index'' \<mapsto> DIdx [0])\<rparr>)),
      Index.write = (\<lambda>its fts g.
         case members g ''index'' of
           Some (DIdx (o1 # os)) \<Rightarrow>
             (Inr (), g\<lparr>members := (members g)(''index'' \<mapsto>
                DIdx ((o1 # os) @ offsets (last (o1 # os)) (map length (Features.data fts))))\<rparr>)
         | _ \<Rightarrow> (Inl (KeyError ''index''), g))\<rparr>"

section \<open>Observing a call of the writer\<close>


definition group_exists :: "string \<Rightarrow> string \<Rightarrow> 'd state \<Rightarrow> bool" where
  "group_exists fname groupname st =
     (case files st fname of Some (HDF5 h5file) \<Rightarrow> h5file groupname \<noteq> None | _ \<Rightarrow> False)"




text \<open>
  The three blocks of \<^verbatim>\<open>Writer.write\<close> under names of their own, for the proofs: the
  check of an existing group, the creation of a new one, and the writes.
\<close>

definition validating ::
  "('d, 'fa) Writer \<Rightarrow> ('d, 'ta, 'fa) data \<Rightarrow> string
     \<Rightarrow> 'd handle \<Rightarrow> (error + unit) \<times> 'd handle" where
  "validating self dat groupname =
     (\<lambda>h. case Writer_is_compatible self (fst h) dat of
             Inl e \<Rightarrow> (Inl e, h)
           | Inr ok \<Rightarrow>
               if \<not> ok
               then (Inl (IOError (''data is not appendable to the group '' @ groupname)), h)
               else (Inr (), h))"

definition creating ::
  "(real \<Rightarrow> real \<Rightarrow> real \<Rightarrow> real) \<Rightarrow> ('d, 'fa) Writer \<Rightarrow> ('d, 'ta, 'fa) data
     \<Rightarrow> 'd handle \<Rightarrow> (error + unit) \<times> 'd handle" where
  "creating nb_lines self dat =
     and_then (call (AttrSet ''version'' (version self))
                (\<lambda>g. (Inr (), g\<lparr>attrs := (attrs g)(''version'' \<mapsto> version self)\<rparr>)))
       (\<lambda>_.
     and_then (call (FeaturesCreate (chunk_size self))
                (Features.create (features dat) (chunk_size self)))
       (\<lambda>nb_in_chunks.
     and_then (call (TimesCreate nb_in_chunks)
                (Times.create (times dat) nb_in_chunks))
       (\<lambda>_.
     let nb_lines_by_chunk = max 10 (nb_lines 20 1 (chunk_size self * 1000)) in
     and_then (call (ItemsCreate nb_lines_by_chunk)
                (Items.create (items dat) nb_lines_by_chunk))
       (\<lambda>_.
     call (IndexCreate (chunk_size self))
       (Index.create (index self) (chunk_size self))))))"

definition writing ::
  "('d, 'fa) Writer \<Rightarrow> ('d, 'ta, 'fa) data \<Rightarrow> 'd handle \<Rightarrow> (error + unit) \<times> 'd handle" where
  "writing self dat =
     and_then (call IndexWrite
                (Index.write (index self) (items dat) (features dat))) (\<lambda>_.
     and_then (call ItemsWrite (Items.write (items dat))) (\<lambda>_.
     and_then (call FeaturesWrite (Features.write (features dat))) (\<lambda>_.
     call TimesWrite (Times.write (times dat)))))"

section \<open>The legacy top-level API (h5features/h5features.py)\<close>

text \<open>
  The modules reader, writer, items, times and features of the package h5features are
  not among the sources.  What h5features.py uses of them is a record of parameters:
  the constructors, which do no input or output, and the methods of Writer and Reader.
\<close>

record ('d, 'ta, 'fa, 'w, 'r, 'ix) modules =
  new_Items :: "string list \<Rightarrow> error + 'd Items"
  new_Times :: "'ta list \<Rightarrow> error + ('d, 'ta) Times"
  new_Features :: "'fa list \<Rightarrow> error + ('d, 'fa) Features"
  new_SparseFeatures :: "'fa list \<Rightarrow> real \<Rightarrow> error + ('d, 'fa) Features"
  parse_dformat :: "string \<Rightarrow> error + string"
  new_Writer :: "string \<Rightarrow> real \<Rightarrow> 'd state \<Rightarrow> (error + 'w) \<times> 'd state"
  writer_write ::
    "'w \<Rightarrow> ('d, 'ta, 'fa) data \<Rightarrow> string \<Rightarrow> bool \<Rightarrow> 'd state \<Rightarrow> (error + unit) \<times> 'd state"
  new_Reader :: "string \<Rightarrow> string \<Rightarrow> 'd state \<Rightarrow> (error + 'r) \<times> 'd state"
  reader_read ::
    "'r \<Rightarrow> string option \<Rightarrow> string option \<Rightarrow> real option \<Rightarrow> real option
       \<Rightarrow> 'd state \<Rightarrow> (error + ('d, 'ta, 'fa) data) \<times> 'd state"
  reader_index_read :: "'r \<Rightarrow> 'ix \<Rightarrow> 'd state \<Rightarrow> (error + ('d, 'ta, 'fa) data) \<times> 'd state"

text \<open>
  \<^verbatim>\<open>dict(pairs)\<close>: a dictionary keeps the order of first insertion, and a key that comes
  again replaces the value at its place.
\<close>

definition dict :: "('k \<times> 'v) list \<Rightarrow> ('k \<times> 'v) list" where
  "dict kvs = foldl (\<lambda>d (k, v). AList.update k v d) [] kvs"

text \<open>\<^verbatim>\<open>read\<close>.  An argument that may be None is an option.\<close>

definition read ::
  "('d, 'ta, 'fa, 'w, 'r, 'ix) modules \<Rightarrow> string \<Rightarrow> string
     \<Rightarrow> string option \<Rightarrow> string option \<Rightarrow> real option \<Rightarrow> real option \<Rightarrow> 'ix option
     \<Rightarrow> 'd state \<Rightarrow> (error + (string \<times> 'ta) list \<times> (string \<times> 'fa) list) \<times> 'd state" where
  "read m fname groupname from_item to_item from_time to_time idx =
     and_then (new_Reader m fname groupname) (\<lambda>reader.
     and_then (case idx of
                 None \<Rightarrow> reader_read m reader from_item to_item from_time to_time
               | Some i \<Rightarrow> reader_index_read m reader i) (\<lambda>dat st.
     (Inr (dict (zip (Items.data (items dat)) (Times.data (times dat))),
           dict (zip (Items.data (items dat)) (Features.data (features dat)))), st)))"

text \<open>
  \<^verbatim>\<open>write\<close> (the name is taken in Isabelle).  An optional argument that is left out is
  None and takes the default of the signature.  The data objects are made first; the
  condition of the conditional expression is evaluated before the branch it selects.
\<close>

definition h5features_write ::
  "('d, 'ta, 'fa, 'w, 'r, 'ix) modules \<Rightarrow> string \<Rightarrow> string
     \<Rightarrow> string list \<Rightarrow> 'ta list \<Rightarrow> 'fa list \<Rightarrow> string option \<Rightarrow> real option \<Rightarrow> real option
     \<Rightarrow> 'd state \<Rightarrow> (error + unit) \<times> 'd state" where
  "h5features_write m fname groupname items_data times_data features_data
       dformat_arg chunk_size_arg sparsity_arg st =
     (let dfmt = (case dformat_arg of None \<Rightarrow> ''dense'' | Some f \<Rightarrow> f);
          csize = (case chunk_size_arg of None \<Rightarrow> 0.1 | Some c \<Rightarrow> c);
          sparsity = (case sparsity_arg of None \<Rightarrow> 0.1 | Some s \<Rightarrow> s)
      in case new_Items m items_data of
           Inl e \<Rightarrow> (Inl e, st)
         | Inr its \<Rightarrow>
        (case new_Times m times_data of
           Inl e \<Rightarrow> (Inl e, st)
         | Inr tms \<Rightarrow>
        (case parse_dformat m dfmt of
           Inl e \<Rightarrow> (Inl e, st)
         | Inr parsed \<Rightarrow>
        (case (if parsed = ''sparse'' then new_SparseFeatures m features_data sparsity
               else new_Features m features_data) of
           Inl e \<Rightarrow> (Inl e, st)
         | Inr fts \<Rightarrow>
             and_then (new_Writer m fname csize)
               (\<lambda>w. writer_write m w \<lparr>items = its, times = tms, features = fts\<rparr>
                      groupname True) st))))"

definition simple_write ::
  "('d, 'ta, 'fa, 'w, 'r, 'ix) modules \<Rightarrow> string \<Rightarrow> string \<Rightarrow> 'ta \<Rightarrow> 'fa \<Rightarrow> string option
     \<Rightarrow> 'd state \<Rightarrow> (error + unit) \<times> 'd state" where
  "simple_write m fname grp tms feats item_arg st =
     (let item = (case item_arg of None \<Rightarrow> ''item'' | Some i \<Rightarrow> i)
      in h5features_write m fname grp [item] [tms] [feats] None None None st)"

text \<open>
  The error, if any, that the preparation of the data raises: that of the first of
  Items, Times, \<^verbatim>\<open>parse_dformat\<close> and the features constructor that fails.
\<close>

definition validation_error ::
  "('d, 'ta, 'fa, 'w, 'r, 'ix) modules \<Rightarrow> string list \<Rightarrow> 'ta list \<Rightarrow> 'fa list
     \<Rightarrow> string option \<Rightarrow> real option \<Rightarrow> error option" where
  "validation_error m items_data times_data features_data dformat_arg sparsity_arg =
     (case new_Items m items_data of
        Inl e \<Rightarrow> Some e
      | Inr _ \<Rightarrow>
     (case new_Times m times_data of
        Inl e \<Rightarrow> Some e
      | Inr _ \<Rightarrow>
     (case parse_dformat m (case dformat_arg of None \<Rightarrow> ''dense'' | Some f \<Rightarrow> f) of
        Inl e \<Rightarrow> Some e
      | Inr parsed \<Rightarrow>
     (case (if parsed = ''sparse''
            then new_SparseFeatures m features_data
                   (case sparsity_arg of None \<Rightarrow> 0.1 | Some s \<Rightarrow> s)
            else new_Features m features_data) of
        Inl e \<Rightarrow> Some e
      | Inr _ \<Rightarrow> None))))"

section \<open>Reader, and the package as a whole, from the specification\<close>

text \<open>
  Modelled from the spec: \<^verbatim>\<open>parse_dformat\<close> (features.py is not in the sources).
  Section 6: the format is dense or sparse; another one is an inconsistent parameter and
  fails with IOError.
\<close>

definition parse_dformat_spec :: "string \<Rightarrow> error + string" where
  "parse_dformat_spec dfmt =
     (if dfmt = ''dense'' \<or> dfmt = ''sparse'' then Inr dfmt
      else Inl (IOError (dfmt @ '' is a bad features format'')))"

text \<open>
  Modelled from the spec: the Reader (reader.py is not in the sources).  Section 4.6: a
  reader is made for a file name and a group; with no bound it loads the full set, the
  rows of item \<open>i\<close> being those from \<open>offset[i]\<close> up to \<open>offset[i+1]\<close> (section 4.4), and
  returns the items in their stored order.  Reads with bounds and reads through an
  external index are not modelled: they are the parameters \<open>bounded_read\<close> and
  \<open>index_read\<close>.
\<close>

type_synonym Reader = "string \<times> string"

definition Reader_init :: "string \<Rightarrow> string \<Rightarrow> dset state \<Rightarrow> (error + Reader) \<times> dset state" where
  "Reader_init fname groupname st =
     (if group_exists fname groupname st then (Inr (fname, groupname), st)
      else (Inl (IOError (groupname @ '' is not in '' @ fname)), st))"

definition ranges :: "nat list \<Rightarrow> (nat \<times> nat) list" where
  "ranges offs = zip offs (tl offs)"

definition Reader_read ::
  "(real \<Rightarrow> real \<Rightarrow> real \<Rightarrow> real)
     \<Rightarrow> (Reader \<Rightarrow> string option \<Rightarrow> string option \<Rightarrow> real option \<Rightarrow> real option
          \<Rightarrow> dset state \<Rightarrow> (error + (dset, array, real list list) data) \<times> dset state)
     \<Rightarrow> Reader \<Rightarrow> string option \<Rightarrow> string option \<Rightarrow> real option \<Rightarrow> real option
     \<Rightarrow> dset state \<Rightarrow> (error + (dset, array, real list list) data) \<times> dset state" where
  "Reader_read nb_lines bounded_read reader from_item to_item from_time to_time st =
     (if from_item = None \<and> to_item = None \<and> from_time = None \<and> to_time = None
      then
        (case files st (fst reader) of
           Some (HDF5 h5file) \<Rightarrow>
             (case h5file (snd reader) of
                Some g \<Rightarrow>
                  (case (members g ''items'', members g ''times'',
                         members g ''features'', members g ''index'') of
                     (Some (DStr its), Some (DArr tms), Some (DArr (Arr2 rows)), Some (DIdx offs)) \<Rightarrow>
                       (Inr \<lparr>items = Items_obj its,
                             times = Times_obj (map (\<lambda>(lo, hi). slice lo hi tms) (ranges offs)),
                             features = Features_obj nb_lines
                               (map (\<lambda>(lo, hi). take (hi - lo) (drop lo rows)) (ranges offs))\<rparr>,
                        st)
                   | _ \<Rightarrow> (Inl (KeyError ''dataset''), st))
              | None \<Rightarrow> (Inl (KeyError (snd reader)), st))
         | _ \<Rightarrow> (Inl (IOError (fst reader)), st))
      else bounded_read reader from_item to_item from_time to_time st)"

text \<open>
  Modelled from the spec: the package with the components of the specification.  The
  writer is the class Writer above, whose \<open>write\<close> has no use for the flag \<open>append\<close>.
  Left as parameters: the chunk policy \<open>nb_lines\<close>, the constructor of sparse features,
  and the two kinds of read that are not modelled.
\<close>

definition spec_modules ::
  "(real \<Rightarrow> real \<Rightarrow> real \<Rightarrow> real)
     \<Rightarrow> (real list list list \<Rightarrow> real \<Rightarrow> error + (dset, real list list) Features)
     \<Rightarrow> (Reader \<Rightarrow> string option \<Rightarrow> string option \<Rightarrow> real option \<Rightarrow> real option
          \<Rightarrow> dset state \<Rightarrow> (error + (dset, array, real list list) data) \<times> dset state)
     \<Rightarrow> (Reader \<Rightarrow> 'ix \<Rightarrow> dset state \<Rightarrow> (error + (dset, array, real list list) data) \<times> dset state)
     \<Rightarrow> (dset, array, real list list, (dset, real list list) Writer, Reader, 'ix) modules" where
  "spec_modules nb_lines sparse_features bounded_read index_read =
     \<lparr>new_Items = Items_init,
      new_Times = Times_init,
      new_Features = Features_init nb_lines,
      new_SparseFeatures = sparse_features,
      parse_dformat = parse_dformat_spec,
      new_Writer = Writer_init Index_obj,
      writer_write = (\<lambda>w dat groupname append. Writer_write nb_lines w dat groupname),
      new_Reader = Reader_init,
      reader_read = Reader_read nb_lines bounded_read,
      reader_index_read = index_read\<rparr>"

text \<open>
  Input data that the constructors of the specification accept: identifiers that are not
  empty and differ from one another, times that are valid, features that are not ragged.
\<close>

definition well_formed :: "string list \<Rightarrow> array list \<Rightarrow> real list list list \<Rightarrow> bool" where
  "well_formed items_data times_data features_data =
     ([] \<notin> set items_data \<and> distinct items_data \<and>
      list_all valid_times times_data \<and>
      list_all (\<lambda>r. length r = dim features_data) (concat features_data))"

section \<open>An example\<close>

text \<open>
  Two items, \<open>a\<close> with three frames and \<open>b\<close> with two, a chunk policy that divides the
  budget by the bytes of a row, an empty file system, one that holds a group of
  another version, and one that holds a group with no attribute at all.
\<close>

definition ex_nb_lines :: "real \<Rightarrow> real \<Rightarrow> real \<Rightarrow> real" where
  "ex_nb_lines item_size nb_dim size_in_mem = size_in_mem / (item_size * nb_dim)"

definition ex_writer :: "(dset, real list list) Writer" where
  "ex_writer = \<lparr>version = ''1.0'', filename = ''data.h5'', chunk_size = 0.1, index = Index_obj\<rparr>"

definition ex_items :: "string list" where
  "ex_items = [''a'', ''b'']"

definition ex_times :: "array list" where
  "ex_times = [Arr1 [0, 1, 2], Arr1 [5, 6]]"

definition ex_features :: "real list list list" where
  "ex_features = [[[1, 0], [2, 0], [3, 1]], [[4, 0], [5, 1]]]"

definition ex_data :: "(dset, array, real list list) data" where
  "ex_data = \<lparr>items = Items_obj ex_items, times = Times_obj ex_times,
              features = Features_obj ex_nb_lines ex_features\<rparr>"

definition ex_empty :: "dset state" where
  "ex_empty = \<lparr>files = Map.empty, trace = []\<rparr>"

definition ex_old_group :: "dset group" where
  "ex_old_group = \<lparr>attrs = [''version'' \<mapsto> ''0.9''], members = Map.empty\<rparr>"

definition ex_old :: "dset state" where
  "ex_old = \<lparr>files = [''data.h5'' \<mapsto> HDF5 [''features'' \<mapsto> ex_old_group]], trace = []\<rparr>"

definition ex_unversioned :: "dset state" where
  "ex_unversioned =
     \<lparr>files = [''data.h5'' \<mapsto> HDF5 [''features'' \<mapsto> \<lparr>attrs = Map.empty, members = Map.empty\<rparr>]],
      trace = []\<rparr>"

definition ex_group :: "dset group" where
  "ex_group = \<lparr>attrs = [''version'' \<mapsto> ''1.0'', ''format'' \<mapsto> ''dense''],
               members = [''items'' \<mapsto> DStr [''z''], ''times'' \<mapsto> DArr (Arr1 [0]),
                          ''features'' \<mapsto> DArr (Arr2 [[7, 7]]), ''index'' \<mapsto> DIdx [0, 1]]\<rparr>"

definition ex_modules ::
  "(dset, array, real list list, (dset, real list list) Writer, Reader, unit) modules" where
  "ex_modules =
     spec_modules ex_nb_lines (\<lambda>features_data sparsity. Inl (NotImplementedError ''sparse''))
       (\<lambda>reader from_item to_item from_time to_time st. (Inl (NotImplementedError ''bounds''), st))
       (\<lambda>reader i st. (Inl (NotImplementedError ''index''), st))"


section \<open>Properties of the writer\<close>

subsection \<open>How a call extends the trace\<close>

lemma and_then_call:
  "and_then (call ev op) f h =
     (case op (fst h) of
        (Inl e, g') \<Rightarrow> (Inl e, (g', snd h @ [ev]))
      | (Inr x, g') \<Rightarrow> f x (g', snd h @ [ev]))"
  by (simp add: and_then_def call_def split: prod.split sum.split)

lemma Writer_write_blocks:
  "Writer_write nb_lines self dat groupname st =
     (case h5py_File (filename self) st of
        Inl e \<Rightarrow> (Inl e, st)
      | Inr (h5file, st1) \<Rightarrow>
          (case h5file groupname of
             Some grp \<Rightarrow>
               close_file (filename self) h5file groupname st1
                 (and_then (validating self dat groupname) (\<lambda>_. writing self dat)
                    (grp, trace st1))
           | None \<Rightarrow>
               close_file (filename self) h5file groupname st1
                 (and_then (creating nb_lines self dat) (\<lambda>_. writing self dat)
                    (\<lparr>attrs = Map.empty, members = Map.empty\<rparr>,
                     trace st1 @ [GroupCreate groupname]))))"
  by (simp add: Writer_write_def writing_def creating_def validating_def Let_def
      split: sum.split prod.split option.split)








lemma h5py_File_absent:
  assumes "files st fname \<noteq> Some NotHDF5" and "\<not> group_exists fname groupname st"
  shows "\<exists>h5file st1. h5py_File fname st = Inr (h5file, st1) \<and> h5file groupname = None"
  using assms by (auto simp: h5py_File_def group_exists_def split: option.splits node.splits)




subsection \<open>The example, evaluated\<close>

lemmas ex_defs =
  ex_nb_lines_def ex_writer_def ex_items_def ex_times_def ex_features_def ex_data_def
  ex_empty_def ex_old_group_def ex_old_def ex_group_def
  Items_obj_def Times_obj_def Features_obj_def Index_obj_def dim_def storage_mode_check_def
  empty_like_def



subsection \<open>The claims about the writer\<close>

text \<open>
  A group that is already in the file and that the compatibility check does not accept
  is left as it was, whether the check returns False or raises: the call fails, and
  neither the file system nor the trace changes.  When the check returns False, the
  error is the IOError of the writer.
\<close>

lemma write_refused_no_writes:
  assumes "files st (filename self) = Some (HDF5 h5file)"
    and "h5file groupname = Some grp"
    and "Writer_is_compatible self grp dat \<noteq> Inr True"
  shows "snd (Writer_write nb_lines self dat groupname st) = st \<and>
         (\<exists>e. fst (Writer_write nb_lines self dat groupname st) = Inl e)"
proof (cases "Writer_is_compatible self grp dat")
  case (Inl e)
  with assms show ?thesis
    by (simp add: Writer_write_def h5py_File_def and_then_def close_file_def map_upd_triv)
next
  case (Inr ok)
  with assms(3) have "\<not> ok" by simp
  with Inr assms(1,2) show ?thesis
    by (simp add: Writer_write_def h5py_File_def and_then_def close_file_def map_upd_triv)
qed

lemma write_incompatible_IOError:
  assumes "files st (filename self) = Some (HDF5 h5file)"
    and "h5file groupname = Some grp"
    and "Writer_is_compatible self grp dat = Inr False"
  shows "Writer_write nb_lines self dat groupname st =
           (Inl (IOError (''data is not appendable to the group '' @ groupname)), st)"
  using assms
  by (simp add: Writer_write_def h5py_File_def and_then_def close_file_def map_upd_triv)

lemma write_incompatible_IOError_example:
  "Writer_is_compatible ex_writer ex_old_group ex_data = Inr False \<and>
   Writer_write ex_nb_lines ex_writer ex_data ''features'' ex_old =
     (Inl (IOError ''data is not appendable to the group features''), ex_old)"
proof -
  have f: "files ex_old (filename ex_writer) = Some (HDF5 [''features'' \<mapsto> ex_old_group])"
    by (simp add: ex_old_def ex_writer_def)
  have g: "[''features'' \<mapsto> ex_old_group] ''features'' = Some ex_old_group"
    by simp
  have c: "Writer_is_compatible ex_writer ex_old_group ex_data = Inr False"
    by (simp add: Writer_is_compatible_def is_same_version_def ex_writer_def ex_old_group_def)
  from write_incompatible_IOError [OF f g c, of ex_nb_lines] c show ?thesis
    by simp
qed

text \<open>
  C1.  A write to a group that exists and to which the data is not appendable should
  raise IOError and write nothing.  For a group that has no attribute \<open>version\<close> the
  writer does write nothing, but the error is not IOError: the lookup of the attribute
  in \<^verbatim>\<open>is_same_version\<close> raises KeyError, and the \<^verbatim>\<open>raise IOError\<close> of \<^verbatim>\<open>write\<close> is not
  reached.
\<close>

theorem write_unversioned_group_KeyError:
  "group_exists (filename ex_writer) ''features'' ex_unversioned \<and>
   Writer_write ex_nb_lines ex_writer ex_data ''features'' ex_unversioned =
     (Inl (KeyError ''version''), ex_unversioned)"
  by (simp add: group_exists_def Writer_write_def h5py_File_def and_then_def close_file_def
      Writer_is_compatible_def is_same_version_def ex_writer_def ex_unversioned_def)

text \<open>
  C2.  A chunk size strictly below 0.008 makes the constructor of Writer raise IOError,
  and the file system is what it was.
\<close>

theorem init_chunk_size_floor:
  assumes "csize < 0.008"
  shows "\<exists>msg. Writer_init new_index fname csize st = (Inl (IOError msg), st)"
proof -
  have "csize < min_chunk_size"
    using assms by (simp add: min_chunk_size_def)
  then show ?thesis
    by (simp add: Writer_init_def)
qed

theorem init_chunk_size_floor_witness:
  "(0.001 :: real) < 0.008 \<and>
   (\<exists>msg. Writer_init Index_obj ''data.h5'' 0.001 ex_empty = (Inl (IOError msg), ex_empty))"
proof -
  have small: "(0.001 :: real) < 0.008" by simp
  from init_chunk_size_floor [OF small, of Index_obj "''data.h5''" ex_empty] small
  show ?thesis by blast
qed





text \<open>
  C5.  The compatibility check of the writer returns True only if (a) the attribute
  \<open>version\<close> of the group is the version of the writer, (b) the storage mode that the
  group declares is that of the new data, and (c) the group has a member for each of the
  names of the items, the times, the features and the index, and also for \<open>frames\<close> and
  \<open>coordinates\<close> when the data is sparse.  The writer leaves (b) to the features
  object: the theorem is about a features object whose check is that of the specification.
\<close>

theorem is_compatible_only_if:
  assumes "Writer_is_compatible self grp dat = Inr True"
    and "Features.is_compatible (features dat) grp
           = storage_mode_check (dformat (features dat)) grp"
  shows "attrs grp ''version'' = Some (version self) \<and>
         attrs grp ''format'' = Some (dformat (features dat)) \<and>
         list_all (\<lambda>d. d \<in> dom (members grp))
           [Items.name (items dat), Times.name (times dat),
            Features.name (features dat), Index.name (index self)] \<and>
         (dformat (features dat) = ''sparse'' \<longrightarrow>
            ''frames'' \<in> dom (members grp) \<and> ''coordinates'' \<in> dom (members grp))"
proof -
  from assms(1) have v: "is_same_version self grp = Inr True"
    by (auto simp: Writer_is_compatible_def split: sum.splits bool.splits if_splits)
  from assms(1) have d: "is_same_datasets self grp dat"
    by (auto simp: Writer_is_compatible_def split: sum.splits bool.splits if_splits)
  from assms(1) v d have
    "\<exists>bs. comprehension [Features.is_compatible (features dat) grp,
                         Items.is_compatible (items dat) grp,
                         Times.is_compatible (times dat) grp] = Inr bs \<and> list_all (\<lambda>b. b) bs"
    by (auto simp: Writer_is_compatible_def split: sum.splits)
  then have "Features.is_compatible (features dat) grp = Inr True"
    by (cases "Features.is_compatible (features dat) grp") (auto split: sum.splits)
  with assms(2) have m: "attrs grp ''format'' = Some (dformat (features dat))"
    by (simp add: storage_mode_check_def)
  from v have a: "attrs grp ''version'' = Some (version self)"
    by (auto simp: is_same_version_def split: option.splits)
  from d a m show ?thesis
    by (auto simp: is_same_datasets_def Let_def split: if_splits)
qed

theorem is_compatible_only_if_witness:
  "Writer_is_compatible ex_writer ex_group ex_data = Inr True \<and>
   attrs ex_group ''version'' = Some (version ex_writer) \<and>
   attrs ex_group ''format'' = Some (dformat (features ex_data))"
proof -
  have c: "Writer_is_compatible ex_writer ex_group ex_data = Inr True"
    by (simp add: Writer_is_compatible_def is_same_version_def is_same_datasets_def ex_defs)
  have f: "Features.is_compatible (features ex_data) ex_group
             = storage_mode_check (dformat (features ex_data)) ex_group"
    by (simp add: ex_data_def Features_obj_def)
  from is_compatible_only_if [OF c f] c show ?thesis by simp
qed



section \<open>Properties of the top-level API\<close>

text \<open>
  C7.  Malformed input makes \<^verbatim>\<open>write\<close> raise before any input or output: the data objects
  are made and validated before the Writer is.  First part, for any implementation of
  the modules that are not among the sources: the error of the first constructor that
  fails is the result, and the state is what it was.  Second part, with the constructors
  of the specification and the dense format: input that is not well formed gives a
  ValidationError and leaves the state as it was.
\<close>

theorem validation_before_io:
  "(validation_error m items_data times_data features_data dformat_arg sparsity_arg = Some e \<longrightarrow>
      h5features_write m fname groupname items_data times_data features_data
        dformat_arg chunk_size_arg sparsity_arg st = (Inl e, st)) \<and>
   ((dformat_arg' = None \<or> dformat_arg' = Some ''dense'') \<and>
    \<not> well_formed items_data' times_data' features_data' \<longrightarrow>
      (\<exists>msg. h5features_write (spec_modules nb_lines sparse_features bounded_read index_read)
               fname' groupname' items_data' times_data' features_data'
               dformat_arg' chunk_size_arg' sparsity_arg' st' = (Inl (ValidationError msg), st')))"
proof (intro conjI impI)
  assume "validation_error m items_data times_data features_data dformat_arg sparsity_arg = Some e"
  then show "h5features_write m fname groupname items_data times_data features_data
        dformat_arg chunk_size_arg sparsity_arg st = (Inl e, st)"
    unfolding validation_error_def h5features_write_def Let_def
    by (cases "new_Items m items_data"; cases "new_Times m times_data";
        cases "parse_dformat m (case dformat_arg of None \<Rightarrow> ''dense'' | Some f \<Rightarrow> f)";
        cases "new_SparseFeatures m features_data
                 (case sparsity_arg of None \<Rightarrow> 0.1 | Some s \<Rightarrow> s)";
        cases "new_Features m features_data")
       (simp_all split: if_splits)
next
  assume a: "(dformat_arg' = None \<or> dformat_arg' = Some ''dense'') \<and>
    \<not> well_formed items_data' times_data' features_data'"
  then have p: "parse_dformat_spec (case dformat_arg' of None \<Rightarrow> ''dense'' | Some f \<Rightarrow> f)
                  = Inr ''dense''"
    by (auto simp: parse_dformat_spec_def)
  from a have "[] \<in> set items_data' \<or> \<not> distinct items_data' \<or>
      \<not> list_all valid_times times_data' \<or>
      \<not> list_all (\<lambda>r. length r = dim features_data') (concat features_data')"
    by (simp add: well_formed_def)
  then show "\<exists>msg. h5features_write (spec_modules nb_lines sparse_features bounded_read index_read)
               fname' groupname' items_data' times_data' features_data'
               dformat_arg' chunk_size_arg' sparsity_arg' st' = (Inl (ValidationError msg), st')"
    using p
    by (auto simp: h5features_write_def spec_modules_def Let_def
        Items_init_def Times_init_def Features_init_def)
qed

theorem validation_before_io_witness:
  "validation_error ex_modules [''a'', ''a''] ex_times ex_features None None
     = Some (ValidationError ''items are not unique'') \<and>
   \<not> well_formed [''a'', ''a''] ex_times ex_features \<and>
   h5features_write ex_modules ''data.h5'' ''features'' [''a'', ''a''] ex_times ex_features
     None None None ex_empty = (Inl (ValidationError ''items are not unique''), ex_empty)"
proof -
  have v: "validation_error ex_modules [''a'', ''a''] ex_times ex_features None None
     = Some (ValidationError ''items are not unique'')"
    by (simp add: validation_error_def ex_modules_def spec_modules_def Items_init_def)
  have w: "\<not> well_formed [''a'', ''a''] ex_times ex_features"
    by (simp add: well_formed_def)
  from validation_before_io
    [where m = ex_modules and items_data = "[''a'', ''a'']" and times_data = ex_times
       and features_data = ex_features and dformat_arg = None and sparsity_arg = None
       and e = "ValidationError ''items are not unique''" and fname = "''data.h5''"
       and groupname = "''features''" and chunk_size_arg = None and st = ex_empty
       and dformat_arg' = None and items_data' = "[''a'', ''a'']" and times_data' = ex_times
       and features_data' = ex_features and nb_lines = ex_nb_lines
       and sparse_features = "\<lambda>features_data sparsity. Inl (NotImplementedError ''sparse'')"
       and bounded_read = "\<lambda>reader from_item to_item from_time to_time st.
                             (Inl (NotImplementedError ''bounds''), st)"
       and index_read = "\<lambda>reader (i :: unit) st. (Inl (NotImplementedError ''index''), st)"
       and fname' = "''data.h5''" and groupname' = "''features''" and chunk_size_arg' = None
       and sparsity_arg' = None and st' = ex_empty]
    v w
  show ?thesis by blast
qed

text \<open>
  C8.  \<^verbatim>\<open>simple_write\<close> for the item \<open>item\<close> is \<^verbatim>\<open>write\<close> for the one-element lists of the
  item, its times and its features, with the dense format, the chunk size 0.1 and the
  sparsity 0.1; when no item is given, the item is \<open>''item''\<close>.
\<close>

theorem simple_write_is_write:
  "simple_write m fname grp tms feats (Some item) st =
     h5features_write m fname grp [item] [tms] [feats] (Some ''dense'') (Some 0.1) (Some 0.1) st \<and>
   simple_write m fname grp tms feats None st =
     simple_write m fname grp tms feats (Some ''item'') st"
  by (simp add: simple_write_def h5features_write_def)

text \<open>
  C10.  When \<^verbatim>\<open>read\<close> is given an index, it reads through \<^verbatim>\<open>index_read\<close>, and the four
  bounds have no part in the result.
\<close>

theorem read_index_ignores_bounds:
  "read m fname groupname from_item to_item from_time to_time (Some i) st =
     and_then (new_Reader m fname groupname) (\<lambda>reader.
     and_then (reader_index_read m reader i) (\<lambda>dat st.
       (Inr (dict (zip (Items.data (items dat)) (Times.data (times dat))),
             dict (zip (Items.data (items dat)) (Features.data (features dat)))), st))) st \<and>
   read m fname groupname from_item to_item from_time to_time (Some i) st =
     read m fname groupname from_item' to_item' from_time' to_time' (Some i) st"
  by (simp add: read_def)

section \<open>The round trip\<close>

lemma update_fresh: "k \<notin> fst ` set al \<Longrightarrow> AList.update k v al = al @ [(k, v)]"
  by (induction al) auto

lemma foldl_update_distinct:
  "distinct (map fst kvs) \<Longrightarrow> fst ` set acc \<inter> fst ` set kvs = {} \<Longrightarrow>
     foldl (\<lambda>d (k, v). AList.update k v d) acc kvs = acc @ kvs"
proof (induction kvs arbitrary: acc)
  case Nil
  then show ?case by simp
next
  case (Cons kv kvs)
  obtain k v where kv: "kv = (k, v)" by (cases kv)
  from Cons.prems kv have fresh: "k \<notin> fst ` set acc" by auto
  have "foldl (\<lambda>d (k, v). AList.update k v d) (acc @ [(k, v)]) kvs = (acc @ [(k, v)]) @ kvs"
    using Cons.prems kv by (intro Cons.IH) auto
  with fresh kv show ?case by (simp add: update_fresh)
qed

lemma dict_distinct: "distinct (map fst kvs) \<Longrightarrow> dict kvs = kvs"
  using foldl_update_distinct [of kvs "[]"] by (simp add: dict_def)

lemma dict_zip: "distinct ks \<Longrightarrow> dict (zip ks vs) = zip ks vs"
  by (rule dict_distinct) (simp add: map_fst_zip_take)

lemma ranges_Cons: "ranges (a # b # offs) = (a, b) # ranges (b # offs)"
  by (simp add: ranges_def)

lemma ranges_offsets:
  "ranges (t # offsets t ns) = (case ns of [] \<Rightarrow> [] | n # ns' \<Rightarrow> (t, t + n) # ranges ((t + n) # offsets (t + n) ns'))"
  by (cases ns) (simp_all add: ranges_def)

lemma slices_concat:
  "length pre = t \<Longrightarrow>
     map (\<lambda>(lo, hi). take (hi - lo) (drop lo (pre @ concat xss)))
       (ranges (t # offsets t (map length xss))) = xss"
proof (induction xss arbitrary: pre t)
  case Nil
  then show ?case by (simp add: ranges_def)
next
  case (Cons xs xss)
  have "map (\<lambda>(lo, hi). take (hi - lo) (drop lo ((pre @ xs) @ concat xss)))
       (ranges ((t + length xs) # offsets (t + length xs) (map length xss))) = xss"
    using Cons.prems by (intro Cons.IH) simp
  with Cons.prems show ?case
    by (simp add: ranges_Cons)
qed


lemma append_all_rank1:
  "list_all (\<lambda>a. rank a = 1) tms \<Longrightarrow> length pre = t \<Longrightarrow>
     \<exists>ys. append_all (Arr1 pre) tms = Inr (Arr1 (pre @ ys)) \<and>
          map (\<lambda>(lo, hi). slice lo hi (Arr1 (pre @ ys)))
            (ranges (t # offsets t (map nrows tms))) = tms"
proof (induction tms arbitrary: pre t)
  case Nil
  then show ?case by (simp add: ranges_def)
next
  case (Cons tm tms)
  then obtain xs where tm: "tm = Arr1 xs" by (cases tm) auto
  from Cons.prems have "list_all (\<lambda>a. rank a = 1) tms" by simp
  moreover have "length (pre @ xs) = t + length xs" using Cons.prems by simp
  ultimately obtain ys where
    ys: "append_all (Arr1 (pre @ xs)) tms = Inr (Arr1 ((pre @ xs) @ ys))"
      "map (\<lambda>(lo, hi). slice lo hi (Arr1 ((pre @ xs) @ ys)))
            (ranges ((t + length xs) # offsets (t + length xs) (map nrows tms))) = tms"
    using Cons.IH by blast
  show ?case
    using ys Cons.prems(2) tm
    by (intro exI [of _ "xs @ ys"]) (simp add: ranges_Cons)
qed

lemma append_all_rank2:
  "list_all (\<lambda>a. rank a = 2) tms \<Longrightarrow> length pre = t \<Longrightarrow>
     \<exists>ys. append_all (Arr2 pre) tms = Inr (Arr2 (pre @ ys)) \<and>
          map (\<lambda>(lo, hi). slice lo hi (Arr2 (pre @ ys)))
            (ranges (t # offsets t (map nrows tms))) = tms"
proof (induction tms arbitrary: pre t)
  case Nil
  then show ?case by (simp add: ranges_def)
next
  case (Cons tm tms)
  then obtain xs where tm: "tm = Arr2 xs" by (cases tm) auto
  from Cons.prems have "list_all (\<lambda>a. rank a = 2) tms" by simp
  moreover have "length (pre @ xs) = t + length xs" using Cons.prems by simp
  ultimately obtain ys where
    ys: "append_all (Arr2 (pre @ xs)) tms = Inr (Arr2 ((pre @ xs) @ ys))"
      "map (\<lambda>(lo, hi). slice lo hi (Arr2 ((pre @ xs) @ ys)))
            (ranges ((t + length xs) # offsets (t + length xs) (map nrows tms))) = tms"
    using Cons.IH by blast
  show ?case
    using ys Cons.prems(2) tm
    by (intro exI [of _ "xs @ ys"]) (simp add: ranges_Cons)
qed

lemma append_all_same_rank:
  assumes "same_rank tms"
  shows "\<exists>joined. append_all (empty_like tms) tms = Inr joined \<and>
           map (\<lambda>(lo, hi). slice lo hi joined) (ranges (0 # offsets 0 (map nrows tms))) = tms"
proof (cases tms)
  case Nil
  then show ?thesis by (simp add: empty_like_def ranges_def)
next
  case (Cons tm rest)
  show ?thesis
  proof (cases tm)
    case (Arr1 xs)
    with Cons assms have "list_all (\<lambda>a. rank a = 1) tms" by (simp add: same_rank_def)
    from append_all_rank1 [OF this, of "[]" 0] Cons Arr1 show ?thesis
      by (auto simp: empty_like_def)
  next
    case (Arr2 xs)
    with Cons assms have "list_all (\<lambda>a. rank a = 2) tms" by (simp add: same_rank_def)
    from append_all_rank2 [OF this, of "[]" 0] Cons Arr2 show ?thesis
      by (auto simp: empty_like_def)
  qed
qed


lemma and_then_assoc:
  "and_then (and_then m f) g = and_then m (\<lambda>x. and_then (f x) g)"
  by (rule ext) (simp add: and_then_def split: prod.split sum.split)

lemma spec_new_group:
  fixes tr :: "event list" and its tms fts nb_lines
  assumes j: "append_all (empty_like tms) tms = Inr joined"
    and w: "index self = Index_obj"
  defines "dat \<equiv> \<lparr>items = Items_obj its, times = Times_obj tms,
                    features = Features_obj nb_lines fts\<rparr>"
  shows "\<exists>g tr'. and_then (creating nb_lines self dat) (\<lambda>_. writing self dat)
            (\<lparr>attrs = Map.empty, members = Map.empty\<rparr>, tr) = (Inr (), (g, tr')) \<and>
           members g ''items'' = Some (DStr its) \<and>
           members g ''times'' = Some (DArr joined) \<and>
           members g ''features'' = Some (DArr (Arr2 (concat fts))) \<and>
           members g ''index'' = Some (DIdx (0 # offsets 0 (map length fts)))"
  using j w
  by (simp add: dat_def creating_def writing_def and_then_assoc and_then_call call_def Let_def
      Items_obj_def Times_obj_def Features_obj_def Index_obj_def empty_like_def)


lemma nrows_lengths:
  "list_all2 (\<lambda>t f. nrows t = length f) tms fts \<Longrightarrow> map nrows tms = map length fts"
  by (induction rule: list_all2_induct) simp_all

lemma Writer_init_ok:
  assumes "files st fname \<noteq> Some NotHDF5" and "min_chunk_size \<le> csize"
  shows "Writer_init new_index fname csize st =
           (Inr \<lparr>version = ''1.0'', filename = fname, chunk_size = csize, index = new_index\<rparr>, st)"
  using assms
  by (auto simp: Writer_init_def isfile_def is_hdf5_def split: option.splits node.splits)

lemma spec_write:
  fixes its tms fts nb_lines self
  assumes j: "append_all (empty_like tms) tms = Inr joined"
    and w: "index self = Index_obj"
    and f: "files st (filename self) \<noteq> Some NotHDF5"
    and g: "\<not> group_exists (filename self) groupname st"
  defines "dat \<equiv> \<lparr>items = Items_obj its, times = Times_obj tms,
                    features = Features_obj nb_lines fts\<rparr>"
  shows "\<exists>st' h5file g. Writer_write nb_lines self dat groupname st = (Inr (), st') \<and>
           files st' (filename self) = Some (HDF5 h5file) \<and> h5file groupname = Some g \<and>
           members g ''items'' = Some (DStr its) \<and>
           members g ''times'' = Some (DArr joined) \<and>
           members g ''features'' = Some (DArr (Arr2 (concat fts))) \<and>
           members g ''index'' = Some (DIdx (0 # offsets 0 (map length fts)))"
proof -
  from h5py_File_absent [OF f g] obtain h5file st1 where
    opened: "h5py_File (filename self) st = Inr (h5file, st1)"
    and absent: "h5file groupname = None"
    by blast
  from spec_new_group [OF j w, of nb_lines its fts "trace st1 @ [GroupCreate groupname]"]
  obtain g tr' where run:
    "and_then (creating nb_lines self dat) (\<lambda>_. writing self dat)
       (\<lparr>attrs = Map.empty, members = Map.empty\<rparr>, trace st1 @ [GroupCreate groupname])
       = (Inr (), (g, tr'))"
    and m: "members g ''items'' = Some (DStr its)"
      "members g ''times'' = Some (DArr joined)"
      "members g ''features'' = Some (DArr (Arr2 (concat fts)))"
      "members g ''index'' = Some (DIdx (0 # offsets 0 (map length fts)))"
    unfolding dat_def by blast
  have "Writer_write nb_lines self dat groupname st =
          (Inr (), st1\<lparr>files := (files st1)(filename self \<mapsto> HDF5 (h5file(groupname \<mapsto> g))),
                       trace := tr'\<rparr>)"
    using opened absent run by (simp add: Writer_write_blocks close_file_def)
  with m show ?thesis
    by (intro exI [of _ "st1\<lparr>files := (files st1)(filename self \<mapsto> HDF5 (h5file(groupname \<mapsto> g))),
                       trace := tr'\<rparr>"] exI [of _ "h5file(groupname \<mapsto> g)"] exI [of _ g]) simp
qed

lemma spec_read:
  assumes "files st fname = Some (HDF5 h5file)" and "h5file groupname = Some g"
    and "members g ''items'' = Some (DStr its)"
    and "members g ''times'' = Some (DArr joined)"
    and "members g ''features'' = Some (DArr (Arr2 rows))"
    and "members g ''index'' = Some (DIdx offs)"
  shows "read (spec_modules nb_lines sparse_features bounded_read index_read)
           fname groupname None None None None None st =
         (Inr (dict (zip its (map (\<lambda>(lo, hi). slice lo hi joined) (ranges offs))),
               dict (zip its (map (\<lambda>(lo, hi). take (hi - lo) (drop lo rows)) (ranges offs)))),
          st)"
  using assms
  by (simp add: read_def spec_modules_def and_then_def Reader_init_def group_exists_def
      Reader_read_def Items_obj_def Times_obj_def Features_obj_def)

text \<open>
  C9.  Round trip, with the components of the specification.  The input is valid: it is
  well formed, the times of all items have one rank, and each item has as many rows of
  times as of features.  The format is dense, the chunk size is not below the floor, the
  file can be opened and the group is not in it.  Then \<^verbatim>\<open>write\<close> succeeds, and \<^verbatim>\<open>read\<close>
  of the same file and group, with no bound, returns the two dictionaries that map, in
  the order of the items, each item to its times and to its features.
\<close>

theorem read_write_roundtrip:
  fixes nb_lines sparse_features bounded_read index_read
  defines "m \<equiv> spec_modules nb_lines sparse_features bounded_read index_read"
  assumes valid: "well_formed its tms fts"
    and ranks: "same_rank tms"
    and rows: "list_all2 (\<lambda>t f. nrows t = length f) tms fts"
    and dense: "dformat_arg = None \<or> dformat_arg = Some ''dense''"
    and chunk: "chunk_size_arg = None \<or> (\<exists>c. chunk_size_arg = Some c \<and> min_chunk_size \<le> c)"
    and openable: "files st fname \<noteq> Some NotHDF5"
    and fresh: "\<not> group_exists fname groupname st"
  shows "\<exists>st'. h5features_write m fname groupname its tms fts
                 dformat_arg chunk_size_arg sparsity_arg st = (Inr (), st') \<and>
               read m fname groupname None None None None None st' =
                 (Inr (zip its tms, zip its fts), st')"
proof -
  define csize where "csize = (case chunk_size_arg of None \<Rightarrow> 0.1 | Some c \<Rightarrow> c)"
  define self :: "(dset, real list list) Writer" where
    "self = \<lparr>version = ''1.0'', filename = fname, chunk_size = csize, index = Index_obj\<rparr>"
  define dat where "dat = \<lparr>items = Items_obj its, times = Times_obj tms,
                    features = Features_obj nb_lines fts\<rparr>"
  have big: "min_chunk_size \<le> csize"
    using chunk by (auto simp: csize_def min_chunk_size_def)
  have parsed: "parse_dformat_spec (case dformat_arg of None \<Rightarrow> ''dense'' | Some f \<Rightarrow> f)
                  = Inr ''dense''"
    using dense by (auto simp: parse_dformat_spec_def)
  have w: "h5features_write m fname groupname its tms fts
             dformat_arg chunk_size_arg sparsity_arg st =
           Writer_write nb_lines self dat groupname st"
    using valid parsed Writer_init_ok [OF openable big, of Index_obj]
    by (simp add: h5features_write_def m_def spec_modules_def Let_def well_formed_def
        Items_init_def Times_init_def Features_init_def and_then_def
        csize_def [symmetric] self_def dat_def)
  from append_all_same_rank [OF ranks] obtain joined where
    j: "append_all (empty_like tms) tms = Inr joined"
    and sl: "map (\<lambda>(lo, hi). slice lo hi joined) (ranges (0 # offsets 0 (map nrows tms))) = tms"
    by blast
  have "index self = Index_obj" "files st (filename self) \<noteq> Some NotHDF5"
    "\<not> group_exists (filename self) groupname st"
    using openable fresh by (simp_all add: self_def)
  from spec_write [OF j this, of nb_lines its fts]
  obtain st' h5file g where
    wr: "Writer_write nb_lines self dat groupname st = (Inr (), st')"
    and fl: "files st' (filename self) = Some (HDF5 h5file)" "h5file groupname = Some g"
    and mem: "members g ''items'' = Some (DStr its)"
      "members g ''times'' = Some (DArr joined)"
      "members g ''features'' = Some (DArr (Arr2 (concat fts)))"
      "members g ''index'' = Some (DIdx (0 # offsets 0 (map length fts)))"
    unfolding dat_def by blast
  from fl have fl': "files st' fname = Some (HDF5 h5file)" by (simp add: self_def)
  have distinct: "distinct its" using valid by (simp add: well_formed_def)
  have t: "map (\<lambda>(lo, hi). slice lo hi joined) (ranges (0 # offsets 0 (map length fts))) = tms"
    using sl nrows_lengths [OF rows] by simp
  have f: "map (\<lambda>(lo, hi). take (hi - lo) (drop lo (concat fts)))
             (ranges (0 # offsets 0 (map length fts))) = fts"
    using slices_concat [of "[]" 0 fts] by simp
  have "read m fname groupname None None None None None st' =
          (Inr (zip its tms, zip its fts), st')"
    unfolding m_def spec_read [OF fl' fl(2) mem] t f
    using distinct by (simp add: dict_zip)
  with w wr show ?thesis by auto
qed

theorem read_write_roundtrip_witness:
  "well_formed ex_items ex_times ex_features \<and> same_rank ex_times \<and>
   list_all2 (\<lambda>t f. nrows t = length f) ex_times ex_features \<and>
   files ex_empty ''data.h5'' \<noteq> Some NotHDF5 \<and>
   \<not> group_exists ''data.h5'' ''features'' ex_empty \<and>
   (\<exists>st'. h5features_write ex_modules ''data.h5'' ''features'' ex_items ex_times ex_features
             None None None ex_empty = (Inr (), st') \<and>
          read ex_modules ''data.h5'' ''features'' None None None None None st' =
            (Inr ([(''a'', Arr1 [0, 1, 2]), (''b'', Arr1 [5, 6])],
                  [(''a'', [[1, 0], [2, 0], [3, 1]]), (''b'', [[4, 0], [5, 1]])]), st'))"
proof -
  have a: "well_formed ex_items ex_times ex_features"
    by (simp add: well_formed_def ex_items_def ex_times_def ex_features_def dim_def)
  have b: "same_rank ex_times"
    by (simp add: same_rank_def ex_times_def)
  have c: "list_all2 (\<lambda>t f. nrows t = length f) ex_times ex_features"
    by (simp add: ex_times_def ex_features_def)
  have d: "files ex_empty ''data.h5'' \<noteq> Some NotHDF5"
    by (simp add: ex_empty_def)
  have e: "\<not> group_exists ''data.h5'' ''features'' ex_empty"
    by (simp add: group_exists_def ex_empty_def)
  from read_write_roundtrip [OF a b c _ _ d e, of None None ex_nb_lines
      "\<lambda>features_data sparsity. Inl (NotImplementedError ''sparse'')"
      "\<lambda>reader from_item to_item from_time to_time st. (Inl (NotImplementedError ''bounds''), st)"
      "\<lambda>reader (i :: unit) st. (Inl (NotImplementedError ''index''), st)" None]
    a b c d e
  show ?thesis
    by (simp add: ex_modules_def ex_items_def ex_times_def ex_features_def)
qed


end
